theory Spec2Isabelle
  imports Main
begin

section \<open>The sample application (src/sample-app/src/app.py)\<close>

text \<open>
  The application is a Flask program: four view functions, two error handlers, one
  \<open>after_request\<close> hook and a process entry. The view functions, the handlers, the hook
  and the entry are translated from app.py. What the framework and the interpreter do
  between them is written out as far as the program relies on it: matching a request
  against the registered rules, calling the error handler registered for a status code,
  running the hook on every response, item assignment on the header store, \<open>jsonify\<close>,
  \<open>os.getenv\<close>, \<open>datetime.isoformat\<close> and \<open>int\<close> on a string. A character is a
  code point below 256, which is what the strings of a WSGI request hold.
\<close>

subsection \<open>Characters\<close>

definition lower_char :: "char \<Rightarrow> char" where
  "lower_char c =
     (let n = (of_char c :: nat) in if 65 \<le> n \<and> n \<le> 90 then char_of (n + 32) else c)"

definition upper_char :: "char \<Rightarrow> char" where
  "upper_char c =
     (let n = (of_char c :: nat) in if 97 \<le> n \<and> n \<le> 122 then char_of (n - 32) else c)"

definition lower :: "string \<Rightarrow> string" where
  "lower s = map lower_char s"

definition upper :: "string \<Rightarrow> string" where
  "upper s = map upper_char s"

text \<open>
  \<open>lower\<close> and \<open>upper\<close> change the ASCII letters only. The program's strings are
  compared, after them, with ASCII words (header names, \<open>upgrade\<close>, \<open>websocket\<close>, the
  method names GET, HEAD and OPTIONS). Under \<open>str.lower\<close> no character outside ASCII
  becomes an ASCII character; under \<open>str.upper\<close> only the sharp s does, which becomes
  \<open>SS\<close>, and none of the method names contains that. So the comparisons come out as
  in the program. \<open>is_space\<close> is \<open>str.isspace\<close> on one character, which
  \<open>str.strip\<close> removes.
\<close>

definition is_space :: "char \<Rightarrow> bool" where
  "is_space c \<longleftrightarrow>
     (let n = (of_char c :: nat)
      in (9 \<le> n \<and> n \<le> 13) \<or> (28 \<le> n \<and> n \<le> 32) \<or> n = 133 \<or> n = 160)"

definition strip :: "string \<Rightarrow> string" where
  "strip s = rev (dropWhile is_space (rev (dropWhile is_space s)))"

text \<open>\<open>s.split(sep)\<close> for a separator of one character: always at least one piece.\<close>

fun split :: "char \<Rightarrow> string \<Rightarrow> string list" where
  "split sep [] = [[]]"
| "split sep (c # cs) =
     (if c = sep then [] # split sep cs
      else (case split sep cs of p # ps \<Rightarrow> (c # p) # ps | [] \<Rightarrow> [[c]]))"

subsection \<open>JSON values, responses, log records\<close>

text \<open>
  \<open>jsonify\<close> is given a Python dict literal and serialises it with its keys sorted, at
  every level; strings are ordered by code point.
\<close>

datatype json = JStr string | JInt int | JArr "json list" | JObj "(string \<times> json) list"

fun jget :: "json \<Rightarrow> string \<Rightarrow> json option" where
  "jget (JObj kvs) k = map_of kvs k"
| "jget _ k = None"

fun str_le :: "string \<Rightarrow> string \<Rightarrow> bool" where
  "str_le [] ys = True"
| "str_le (x # xs) [] = False"
| "str_le (x # xs) (y # ys) =
     (if x = y then str_le xs ys else (of_char x :: nat) < of_char y)"

fun insert_key :: "string \<times> json \<Rightarrow> (string \<times> json) list \<Rightarrow> (string \<times> json) list" where
  "insert_key kv [] = [kv]"
| "insert_key kv (kv' # kvs) =
     (if str_le (fst kv) (fst kv') then kv # kv' # kvs else kv' # insert_key kv kvs)"

fun sort_keys :: "json \<Rightarrow> json" where
  "sort_keys (JObj kvs) =
     JObj (foldr insert_key (map (\<lambda>kv. (fst kv, sort_keys (snd kv))) kvs) [])"
| "sort_keys (JArr xs) = JArr (map sort_keys xs)"
| "sort_keys (JStr s) = JStr s"
| "sort_keys (JInt n) = JInt n"

text \<open>
  A response body is the JSON document of \<open>jsonify\<close>, or a body the framework writes by
  itself: the page of an HTTP error or redirect that has no registered handler, and the
  empty body of the automatic OPTIONS answer. Of the headers the framework sets on a
  response it builds, the model keeps the content type; the others (Content-Length, Allow,
  Location) are left out, and no statement below depends on them.

  The log holds the records written at level INFO or above, which is the configured
  level, in order: those of the program's own logger and those of the framework's. A
  record has a level, a message, and the description of the exception it was logged with,
  if any.
\<close>

datatype body = Json json | DefaultErrorPage nat | NoBody

type_synonym headers = "(string \<times> string) list"

record response =
  status :: nat
  headers :: headers
  body :: body

datatype level = INFO | ERROR

type_synonym log = "(level \<times> string \<times> string option) list"

subsection \<open>The header store\<close>

text \<open>
  \<open>response.headers\<close> is a list of name/value pairs whose names compare without regard
  to case. \<open>headers[name] = value\<close> replaces the first pair of that name, removes every
  later one, and appends the pair when the name is new; \<open>headers.get(name)\<close> is the value
  of the first pair of that name.
\<close>

fun set_header :: "string \<Rightarrow> string \<Rightarrow> headers \<Rightarrow> headers" where
  "set_header k v [] = [(k, v)]"
| "set_header k v ((k', v') # hs) =
     (if lower k' = lower k
      then (k, v) # filter (\<lambda>(n, _). lower n \<noteq> lower k) hs
      else (k', v') # set_header k v hs)"

fun get_header :: "headers \<Rightarrow> string \<Rightarrow> string option" where
  "get_header [] k = None"
| "get_header ((k', v') # hs) k = (if lower k' = lower k then Some v' else get_header hs k)"

definition get_all :: "headers \<Rightarrow> string \<Rightarrow> string list" where
  "get_all hs k = map snd (filter (\<lambda>(n, _). lower n = lower k) hs)"

subsection \<open>The after-request hook\<close>

definition add_security_headers :: "response \<Rightarrow> response" where
  "add_security_headers response =
     (let h1 = set_header ''X-Content-Type-Options'' ''nosniff'' (headers response);
          h2 = set_header ''X-Frame-Options'' ''DENY'' h1;
          h3 = set_header ''X-XSS-Protection'' ''1; mode=block'' h2;
          h4 = set_header ''Strict-Transport-Security'' ''max-age=31536000; includeSubDomains'' h3
      in response\<lparr>headers := h4\<rparr>)"

subsection \<open>Environment, clock and request\<close>

type_synonym environ = "string \<rightharpoonup> string"

definition getenv :: "environ \<Rightarrow> string \<Rightarrow> string \<Rightarrow> string" where
  "getenv env k d = (case env k of None \<Rightarrow> d | Some v \<Rightarrow> v)"

text \<open>
  \<open>datetime.utcnow()\<close> reads the clock; the reading is the argument \<open>now\<close> of every view
  function. It is a naive datetime, so \<open>isoformat()\<close> writes
  \<open>YYYY-MM-DDTHH:MM:SS\<close>, followed by \<open>.ffffff\<close> when the microsecond is not zero, and
  no offset.
\<close>

record datetime =
  year :: nat
  month :: nat
  day :: nat
  hour :: nat
  minute :: nat
  second :: nat
  microsecond :: nat

definition valid_datetime :: "datetime \<Rightarrow> bool" where
  "valid_datetime t \<longleftrightarrow>
     1 \<le> year t \<and> year t \<le> 9999 \<and> 1 \<le> month t \<and> month t \<le> 12 \<and>
     1 \<le> day t \<and> day t \<le> 31 \<and> hour t < 24 \<and> minute t < 60 \<and> second t < 60 \<and>
     microsecond t < 1000000"

definition digit_char :: "nat \<Rightarrow> char" where
  "digit_char d = char_of (48 + d)"

fun dec :: "nat \<Rightarrow> string" where
  "dec n = (if n < 10 then [digit_char n] else dec (n div 10) @ [digit_char (n mod 10)])"

declare dec.simps [simp del]

definition zfill :: "nat \<Rightarrow> nat \<Rightarrow> string" where
  "zfill w n = replicate (w - length (dec n)) (CHR ''0'') @ dec n"

definition isoformat :: "datetime \<Rightarrow> string" where
  "isoformat t =
     zfill 4 (year t) @ ''-'' @ zfill 2 (month t) @ ''-'' @ zfill 2 (day t) @ ''T'' @
     zfill 2 (hour t) @ '':'' @ zfill 2 (minute t) @ '':'' @ zfill 2 (second t) @
     (if microsecond t = 0 then [] else ''.'' @ zfill 6 (microsecond t))"

definition is_digit :: "char \<Rightarrow> bool" where
  "is_digit c \<longleftrightarrow> 48 \<le> (of_char c :: nat) \<and> (of_char c :: nat) \<le> 57"

text \<open>
  The shape of an ISO-8601 date and time, as a pattern in which \<open>9\<close> stands for any
  decimal digit and every other character for itself.
\<close>

fun like :: "string \<Rightarrow> string \<Rightarrow> bool" where
  "like [] [] = True"
| "like (p # ps) (c # cs) = ((if p = CHR ''9'' then is_digit c else c = p) \<and> like ps cs)"
| "like _ _ = False"

definition iso8601 :: "string \<Rightarrow> bool" where
  "iso8601 s \<longleftrightarrow> like ''9999-99-99T99:99:99'' s \<or> like ''9999-99-99T99:99:99.999999'' s"

text \<open>
  A request is what the server hands over: the method, the path (PATH_INFO), the query
  string, the body, and the variables made of the request's headers, such as
  HTTP_CONNECTION, each with one value. The module imports \<open>request\<close>, so the request is
  in scope of every view function and handler; it is their first argument here.
\<close>

record request =
  req_method :: string
  req_path :: string
  req_query_string :: string
  req_data :: string
  req_environ :: "(string \<times> string) list"

definition environ_get :: "request \<Rightarrow> string \<Rightarrow> string \<Rightarrow> string" where
  "environ_get req k d = (case map_of (req_environ req) k of None \<Rightarrow> d | Some v \<Rightarrow> v)"

subsection \<open>View functions and error handlers\<close>

definition jsonify :: "json \<Rightarrow> response" where
  "jsonify j =
     \<lparr>status = 200, headers = [(''Content-Type'', ''application/json'')],
      body = Json (sort_keys j)\<rparr>"

text \<open>A view returns the pair \<open>(response, code)\<close>; the framework stores the code.\<close>

definition with_status :: "response \<Rightarrow> nat \<Rightarrow> response" where
  "with_status r code = r\<lparr>status := code\<rparr>"

definition health_check :: "request \<Rightarrow> environ \<Rightarrow> datetime \<Rightarrow> log \<times> response" where
  "health_check req env now =
     ([], with_status (jsonify (JObj
        [(''status'', JStr ''healthy''),
         (''timestamp'', JStr (isoformat now)),
         (''version'', JStr (getenv env ''APP_VERSION'' ''1.0.0''))])) 200)"

definition readiness_check :: "request \<Rightarrow> environ \<Rightarrow> datetime \<Rightarrow> log \<times> response" where
  "readiness_check req env now =
     ([], with_status (jsonify (JObj
        [(''status'', JStr ''ready''),
         (''timestamp'', JStr (isoformat now))])) 200)"

definition index :: "request \<Rightarrow> environ \<Rightarrow> datetime \<Rightarrow> log \<times> response" where
  "index req env now =
     ([], with_status (jsonify (JObj
        [(''message'', JStr ''Secure CI/CD Pipeline Demo''),
         (''version'', JStr (getenv env ''APP_VERSION'' ''1.0.0'')),
         (''environment'', JStr (getenv env ''ENVIRONMENT'' ''development''))])) 200)"

definition get_data :: "request \<Rightarrow> environ \<Rightarrow> datetime \<Rightarrow> log \<times> response" where
  "get_data req env now =
     ([(INFO, ''Data endpoint accessed'', None)], with_status (jsonify (JObj
        [(''data'', JArr
           [JObj [(''id'', JInt 1), (''name'', JStr ''Item 1'')],
            JObj [(''id'', JInt 2), (''name'', JStr ''Item 2'')],
            JObj [(''id'', JInt 3), (''name'', JStr ''Item 3'')]]),
         (''timestamp'', JStr (isoformat now))])) 200)"

text \<open>
  Both handlers receive the error object. \<open>not_found\<close> ignores it; \<open>internal_error\<close>
  formats it into the log message with \<open>f"Internal error: {error}"\<close>, so its argument
  here is the text \<open>str(error)\<close> of the object it is given.
\<close>

definition not_found :: "string \<Rightarrow> log \<times> response" where
  "not_found error =
     ([], with_status (jsonify (JObj
        [(''error'', JStr ''Not found''), (''status'', JInt 404)])) 404)"

definition internal_error :: "string \<Rightarrow> log \<times> response" where
  "internal_error error =
     ([(ERROR, ''Internal error: '' @ error, None)], with_status (jsonify (JObj
        [(''error'', JStr ''Internal server error''), (''status'', JInt 500)])) 500)"

subsection \<open>Routing\<close>

text \<open>
  The rules of the four \<open>app.route\<close> decorators, in the order of the file. Registering a
  rule puts its methods in upper case, adds HEAD to a rule that has GET, and adds OPTIONS,
  which the framework answers by itself; none of the rules is a websocket rule. The
  application object also has the framework's own rule for files under \<open>/static/\<close>.
\<close>

datatype endpoint = Health | Ready | Index | Data

type_synonym rule = "string \<times> string list \<times> endpoint"

definition url_map :: "rule list" where
  "url_map =
     [(''/health'', [''GET''], Health),
      (''/ready'', [''GET''], Ready),
      (''/'', [''GET''], Index),
      (''/api/data'', [''GET''], Data)]"

definition rule_methods :: "string list \<Rightarrow> string list" where
  "rule_methods ms =
     (let us = map upper ms;
          hs = (if ''GET'' \<in> set us \<and> ''HEAD'' \<notin> set us then us @ [''HEAD''] else us)
      in if ''OPTIONS'' \<in> set hs then hs else hs @ [''OPTIONS''])"

datatype exn =
    NotFound
  | MethodNotAllowed
  | WebsocketMismatch
  | RequestRedirect string
  | Unhandled string

text \<open>
  The request counts as a websocket request when one of the comma-separated words of its
  Connection header is \<open>upgrade\<close> and its Upgrade header is \<open>websocket\<close>, both without
  regard to case.
\<close>

definition is_websocket :: "request \<Rightarrow> bool" where
  "is_websocket req \<longleftrightarrow>
     (\<exists>v \<in> set (split (CHR '','') (lower (environ_get req ''HTTP_CONNECTION'' []))).
        strip v = ''upgrade'') \<and>
     lower (environ_get req ''HTTP_UPGRADE'' []) = ''websocket''"

text \<open>
  The path that is matched has its leading slashes replaced by one. When no rule takes
  it, the match is tried again on the path in which every pair of adjacent slashes, from
  the left, is replaced by one slash (the substitution of \<open>/{2,}?\<close> by \<open>/\<close>); a rule
  found this way answers with a redirect to that path. \<open>request_path\<close> is
  \<open>request.path\<close>.
\<close>

definition request_path :: "string \<Rightarrow> string" where
  "request_path p = CHR ''/'' # dropWhile (\<lambda>c. c = CHR ''/'') p"

definition path_part :: "string \<Rightarrow> string" where
  "path_part p = (if p = [] then [] else request_path p)"

fun merge_slashes :: "string \<Rightarrow> string" where
  "merge_slashes (a # b # cs) =
     (if a = CHR ''/'' \<and> b = CHR ''/'' then CHR ''/'' # merge_slashes cs
      else a # merge_slashes (b # cs))"
| "merge_slashes cs = cs"

text \<open>
  One pass over the rules for a path, a method and the websocket flag: the first rule
  with the path, the method and the flag is the match. The two flags that are passed
  along record that a rule had the path but not the method, and that a rule had the path
  and the method but not the websocket flag. After both passes without a match, the first
  flag gives 405, else the second gives 400, else the answer is 404.
\<close>

fun match_rules ::
  "rule list \<Rightarrow> string \<Rightarrow> string \<Rightarrow> bool \<Rightarrow> bool \<times> bool \<Rightarrow> endpoint option \<times> bool \<times> bool"
where
  "match_rules [] p m ws (hm, wm) = (None, hm, wm)"
| "match_rules ((rp, ms, ep) # rs) p m ws (hm, wm) =
     (if rp = p
      then (if m \<notin> set (rule_methods ms) then match_rules rs p m ws (True, wm)
            else if ws then match_rules rs p m ws (hm, True)
            else (Some ep, hm, wm))
      else match_rules rs p m ws (hm, wm))"

definition match_request :: "request \<Rightarrow> exn + endpoint" where
  "match_request req =
     (let p = path_part (req_path req);
          m = upper (req_method req);
          ws = is_websocket req
      in case match_rules url_map p m ws (False, False) of
           (Some ep, _) \<Rightarrow> Inr ep
         | (None, flags) \<Rightarrow>
             (case match_rules url_map (merge_slashes p) m ws flags of
                (Some ep, _) \<Rightarrow> Inl (RequestRedirect (merge_slashes p))
              | (None, hm, wm) \<Rightarrow>
                  Inl (if hm then MethodNotAllowed
                       else if wm then WebsocketMismatch else NotFound)))"

fun view_function :: "endpoint \<Rightarrow> request \<Rightarrow> environ \<Rightarrow> datetime \<Rightarrow> log \<times> response" where
  "view_function Health = health_check"
| "view_function Ready = readiness_check"
| "view_function Index = index"
| "view_function Data = get_data"

text \<open>The responses the framework writes without calling the application.\<close>

definition default_options_response :: "response" where
  "default_options_response =
     \<lparr>status = 200, headers = [(''Content-Type'', ''text/html; charset=utf-8'')],
      body = NoBody\<rparr>"

definition default_error_response :: "nat \<Rightarrow> response" where
  "default_error_response code =
     \<lparr>status = code, headers = [(''Content-Type'', ''text/html; charset=utf-8'')],
      body = DefaultErrorPage code\<rparr>"

text \<open>
  A path under \<open>/static/\<close> belongs to the framework's rule for static files. What that
  rule answers depends on the files beside the program and on the request's headers;
  it is the argument \<open>static_rule\<close>, about which nothing is supposed. No path of the four
  rules lies under \<open>/static/\<close>, before or after merging slashes.

  A view function of this program raises nothing by itself. \<open>fault\<close> is the description
  of an exception that nevertheless ends the call of the view function, if there is one
  (the interpreter running out of memory, say); it is raised before the view has written
  anything.
\<close>

definition under_static :: "string \<Rightarrow> bool" where
  "under_static p \<longleftrightarrow> take 8 p = ''/static/''"

definition dispatch_request ::
  "(request \<Rightarrow> exn + log \<times> response) \<Rightarrow> string option \<Rightarrow> environ \<Rightarrow> datetime \<Rightarrow> request
     \<Rightarrow> exn + log \<times> response"
where
  "dispatch_request static_rule fault env now req =
     (if under_static (path_part (req_path req)) then static_rule req
      else case match_request req of
        Inl e \<Rightarrow> Inl e
      | Inr ep \<Rightarrow>
          if upper (req_method req) = ''OPTIONS'' then Inr ([], default_options_response)
          else (case fault of
                  Some d \<Rightarrow> Inl (Unhandled d)
                | None \<Rightarrow> Inr (view_function ep req env now)))"

subsection \<open>Error handling and the response pipeline\<close>

text \<open>
  Handlers are registered for 404 and 500 only. An HTTP error or redirect without a
  handler is its own response. For an exception that is not an HTTP error the framework
  writes the record \<open>Exception on <path> [<method>]\<close> at level ERROR, with the exception,
  and then calls the 500 handler with an \<open>InternalServerError\<close> object that wraps the
  exception; the text of that object is the same for every exception. Every response,
  whichever way it was made, then passes through the after-request hook. The result is
  the response object handed to the server, which sends no body in answer to HEAD.
\<close>

definition internal_server_error_text :: "string" where
  "internal_server_error_text =
     ''500 Internal Server Error: The server encountered an internal error and was '' @
     ''unable to complete your request. Either the server is overloaded or there is '' @
     ''an error in the application.''"

definition log_exception :: "request \<Rightarrow> string \<Rightarrow> level \<times> string \<times> string option" where
  "log_exception req d =
     (ERROR,
      ''Exception on '' @ request_path (req_path req) @ '' ['' @ upper (req_method req) @ '']'',
      Some d)"

fun handle_exception :: "request \<Rightarrow> exn \<Rightarrow> log \<times> response" where
  "handle_exception req NotFound = not_found ''404 Not Found''"
| "handle_exception req MethodNotAllowed = ([], default_error_response 405)"
| "handle_exception req WebsocketMismatch = ([], default_error_response 400)"
| "handle_exception req (RequestRedirect p) = ([], default_error_response 308)"
| "handle_exception req (Unhandled d) =
     (log_exception req d # fst (internal_error internal_server_error_text),
      snd (internal_error internal_server_error_text))"

definition finalize_request :: "log \<times> response \<Rightarrow> log \<times> response" where
  "finalize_request lr = (fst lr, add_security_headers (snd lr))"

definition full_dispatch :: "request \<Rightarrow> exn + log \<times> response \<Rightarrow> log \<times> response" where
  "full_dispatch req outcome =
     finalize_request (case outcome of Inl e \<Rightarrow> handle_exception req e | Inr lr \<Rightarrow> lr)"

definition wsgi_app ::
  "(request \<Rightarrow> exn + log \<times> response) \<Rightarrow> string option \<Rightarrow> environ \<Rightarrow> datetime \<Rightarrow> request
     \<Rightarrow> log \<times> response"
where
  "wsgi_app static_rule fault env now req =
     full_dispatch req (dispatch_request static_rule fault env now req)"

subsection \<open>Process entry\<close>

text \<open>
  \<open>int\<close> on a string of ASCII characters: white space around the number is dropped (the
  six characters of C's \<open>isspace\<close>: tab, line feed, vertical tab, form feed, carriage
  return, space), one sign may precede the digits, and single underscores may stand between
  digits. Anything else raises ValueError. Strings with characters outside ASCII, among
  which \<open>int\<close> accepts further digits and white space, are outside this definition; so is
  the limit that recent interpreters put on the number of digits.
\<close>

definition ascii :: "string \<Rightarrow> bool" where
  "ascii s \<longleftrightarrow> (\<forall>c \<in> set s. (of_char c :: nat) < 128)"

definition c_isspace :: "char \<Rightarrow> bool" where
  "c_isspace c \<longleftrightarrow> (let n = (of_char c :: nat) in (9 \<le> n \<and> n \<le> 13) \<or> n = 32)"

definition c_strip :: "string \<Rightarrow> string" where
  "c_strip s = rev (dropWhile c_isspace (rev (dropWhile c_isspace s)))"

definition digit_value :: "char \<Rightarrow> nat" where
  "digit_value c = of_char c - 48"

fun scan_digits :: "nat \<Rightarrow> bool \<Rightarrow> string \<Rightarrow> nat option" where
  "scan_digits acc prev [] = (if prev then Some acc else None)"
| "scan_digits acc prev (c # cs) =
     (if is_digit c then scan_digits (acc * 10 + digit_value c) True cs
      else if c = CHR ''_'' \<and> prev then scan_digits acc False cs
      else None)"

definition py_int :: "string \<Rightarrow> int option" where
  "py_int s =
     (case c_strip s of
        [] \<Rightarrow> None
      | c # cs \<Rightarrow>
          if c = CHR ''-'' then map_option (\<lambda>n. - int n) (scan_digits 0 False cs)
          else if c = CHR ''+'' then map_option int (scan_digits 0 False cs)
          else map_option int (scan_digits 0 False (c # cs)))"

text \<open>
  What \<open>int\<close> accepts, said without the scanner: white space, an optional sign, one or
  more groups of one or more digits with an underscore between neighbouring groups, white
  space.
\<close>

definition digit_group :: "string \<Rightarrow> bool" where
  "digit_group g \<longleftrightarrow> g \<noteq> [] \<and> (\<forall>c \<in> set g. is_digit c)"

fun join_groups :: "string list \<Rightarrow> string" where
  "join_groups [] = []"
| "join_groups [g] = g"
| "join_groups (g # h # gs) = g @ CHR ''_'' # join_groups (h # gs)"

definition decimal_literal :: "string \<Rightarrow> bool" where
  "decimal_literal s \<longleftrightarrow>
     (\<exists>l sign gs r.
        s = l @ sign @ join_groups gs @ r \<and>
        (\<forall>c \<in> set l. c_isspace c) \<and> (\<forall>c \<in> set r. c_isspace c) \<and>
        sign \<in> {[], ''+'', ''-''} \<and> gs \<noteq> [] \<and> (\<forall>g \<in> set gs. digit_group g))"

datatype startup_error = ValueError string

record run_config =
  host :: string
  port :: int
  debug :: bool

text \<open>
  \<open>os.getenv('PORT', 8080)\<close> is the integer 8080 when PORT is unset and the variable's
  string otherwise; \<open>int\<close> leaves the integer as it is and parses the string.
\<close>

definition read_port :: "environ \<Rightarrow> startup_error + int" where
  "read_port env =
     (case env ''PORT'' of
        None \<Rightarrow> Inr 8080
      | Some s \<Rightarrow> (case py_int s of None \<Rightarrow> Inl (ValueError s) | Some n \<Rightarrow> Inr n))"

definition main :: "environ \<Rightarrow> startup_error + run_config" where
  "main env =
     (case read_port env of
        Inl e \<Rightarrow> Inl e
      | Inr p \<Rightarrow> Inr \<lparr>host = ''0.0.0.0'', port = p, debug = False\<rparr>)"

subsection \<open>Observations on responses\<close>

text \<open>
  The four security headers, each present once and with its fixed value: \<open>get_all\<close>
  lists every value stored under a name, so a singleton list says that no earlier value
  survives.
\<close>

definition has_security_headers :: "headers \<Rightarrow> bool" where
  "has_security_headers hs \<longleftrightarrow>
     get_all hs ''X-Content-Type-Options'' = [''nosniff''] \<and>
     get_all hs ''X-Frame-Options'' = [''DENY''] \<and>
     get_all hs ''X-XSS-Protection'' = [''1; mode=block''] \<and>
     get_all hs ''Strict-Transport-Security'' = [''max-age=31536000; includeSubDomains'']"

definition json_field :: "response \<Rightarrow> string \<Rightarrow> json option" where
  "json_field r k = (case body r of Json j \<Rightarrow> jget j k | _ \<Rightarrow> None)"

text \<open>
  The static rule of a program that has no static files: whatever is asked under
  \<open>/static/\<close> is not found.
\<close>

definition no_static_files :: "request \<Rightarrow> exn + log \<times> response" where
  "no_static_files req = Inl NotFound"

text \<open>The paths of the four rules.\<close>

definition route_paths :: "string set" where
  "route_paths = {''/health'', ''/ready'', ''/'', ''/api/data''}"

section \<open>Properties\<close>

subsection \<open>Header store\<close>

lemma lower_names:
  "lower ''X-Content-Type-Options'' = ''x-content-type-options''"
  "lower ''X-Frame-Options'' = ''x-frame-options''"
  "lower ''X-XSS-Protection'' = ''x-xss-protection''"
  "lower ''Strict-Transport-Security'' = ''strict-transport-security''"
  "lower ''Content-Type'' = ''content-type''"
  "lower ''Allow'' = ''allow''"
  by code_simp+

lemma get_header_filter:
  "lower k' \<noteq> lower k \<Longrightarrow>
   get_header (filter (\<lambda>(n, _). lower n \<noteq> lower k) hs) k' = get_header hs k'"
  by (induction hs) auto

lemma get_header_set_header:
  "get_header (set_header k v hs) k' = (if lower k' = lower k then Some v else get_header hs k')"
  by (induction hs) (auto simp: get_header_filter)

lemma get_all_filter:
  "lower k' \<noteq> lower k \<Longrightarrow>
   get_all (filter (\<lambda>(n, _). lower n \<noteq> lower k) hs) k' = get_all hs k'"
  by (induction hs) (auto simp: get_all_def)

lemma get_all_filter_same: "get_all (filter (\<lambda>(n, _). lower n \<noteq> lower k) hs) k = []"
  by (induction hs) (auto simp: get_all_def)

lemma get_all_set_header:
  "get_all (set_header k v hs) k' = (if lower k' = lower k then [v] else get_all hs k')"
proof (induction hs)
  case Nil
  show ?case by (simp add: get_all_def)
next
  case (Cons kv hs)
  obtain a b where kv: "kv = (a, b)" by (cases kv)
  show ?case
  proof (cases "lower a = lower k")
    case True
    then show ?thesis
      using get_all_filter [of k' k hs] get_all_filter_same [of k hs]
      by (auto simp: kv get_all_def)
  next
    case False
    then show ?thesis using Cons.IH by (auto simp: kv get_all_def)
  qed
qed

lemma get_all_first: "get_all hs k = v # vs \<Longrightarrow> get_header hs k = Some v"
  by (induction hs) (auto simp: get_all_def split: if_splits)

lemma add_security_headers_ok: "has_security_headers (headers (add_security_headers r))"
  by (simp add: has_security_headers_def add_security_headers_def Let_def get_all_set_header
      lower_names)

subsection \<open>Decimal rendering and the timestamp\<close>

lemma is_digit_digit_char: "d < 10 \<Longrightarrow> is_digit (digit_char d)"
  by (simp add: is_digit_def digit_char_def)

lemma dec_all_digits: "c \<in> set (dec n) \<Longrightarrow> is_digit c"
proof (induction n rule: dec.induct)
  case (1 n)
  show ?case
  proof (cases "n < 10")
    case True
    with "1.prems" show ?thesis by (simp add: dec.simps [of n] is_digit_digit_char)
  next
    case False
    with "1.prems" "1.IH" show ?thesis
      by (auto simp: dec.simps [of n] is_digit_digit_char)
  qed
qed

lemma length_dec: "n < 10 ^ k \<Longrightarrow> 0 < k \<Longrightarrow> length (dec n) \<le> k"
proof (induction n arbitrary: k rule: dec.induct)
  case (1 n)
  show ?case
  proof (cases "n < 10")
    case True
    with "1.prems" show ?thesis by (simp add: dec.simps [of n])
  next
    case False
    then obtain j where k: "k = Suc j" using "1.prems" by (cases k) auto
    have j0: "0 < j" using False "1.prems" k by (cases j) auto
    have "n div 10 < 10 ^ j"
      using "1.prems"(1) k by (simp add: less_mult_imp_div_less mult.commute)
    then have "length (dec (n div 10)) \<le> j" using "1.IH" [OF False _ j0] by simp
    then show ?thesis using False k by (simp add: dec.simps [of n])
  qed
qed

lemma length_zfill: "n < 10 ^ w \<Longrightarrow> 0 < w \<Longrightarrow> length (zfill w n) = w"
  using length_dec [of n w] by (simp add: zfill_def)

lemma zfill_all_digits: "c \<in> set (zfill w n) \<Longrightarrow> is_digit c"
proof -
  assume c: "c \<in> set (zfill w n)"
  have z: "is_digit (CHR ''0'')" by (simp add: is_digit_def)
  from c have "c = CHR ''0'' \<or> c \<in> set (dec n)" by (auto simp: zfill_def)
  then show ?thesis using z dec_all_digits by blast
qed

lemma like_digits:
  "length s = n \<Longrightarrow> (\<And>c. c \<in> set s \<Longrightarrow> is_digit c) \<Longrightarrow>
   like (replicate n (CHR ''9'') @ ps) (s @ cs) = like ps cs"
  by (induction s arbitrary: n) auto

lemma like_zfill:
  "n < 10 ^ w \<Longrightarrow> 0 < w \<Longrightarrow> like (replicate w (CHR ''9'') @ ps) (zfill w n @ cs) = like ps cs"
  by (rule like_digits) (simp_all add: length_zfill zfill_all_digits)

lemma like_zfill_end:
  "n < 10 ^ w \<Longrightarrow> 0 < w \<Longrightarrow> like (replicate w (CHR ''9'')) (zfill w n) = True"
  using like_zfill [of n w "[]" "[]"] by simp

lemma pattern_short:
  "''9999-99-99T99:99:99'' =
   replicate 4 (CHR ''9'') @ CHR ''-'' # replicate 2 (CHR ''9'') @ CHR ''-'' #
   replicate 2 (CHR ''9'') @ CHR ''T'' # replicate 2 (CHR ''9'') @ CHR '':'' #
   replicate 2 (CHR ''9'') @ CHR '':'' # replicate 2 (CHR ''9'') @ []"
  by (simp add: eval_nat_numeral)

lemma pattern_long:
  "''9999-99-99T99:99:99.999999'' =
   replicate 4 (CHR ''9'') @ CHR ''-'' # replicate 2 (CHR ''9'') @ CHR ''-'' #
   replicate 2 (CHR ''9'') @ CHR ''T'' # replicate 2 (CHR ''9'') @ CHR '':'' #
   replicate 2 (CHR ''9'') @ CHR '':'' # replicate 2 (CHR ''9'') @ CHR ''.'' #
   replicate 6 (CHR ''9'') @ []"
  by (simp add: eval_nat_numeral)

lemma isoformat_iso8601: "valid_datetime t \<Longrightarrow> iso8601 (isoformat t)"
proof -
  assume v: "valid_datetime t"
  then have b: "year t < 10 ^ 4" "month t < 10 ^ 2" "day t < 10 ^ 2" "hour t < 10 ^ 2"
    "minute t < 10 ^ 2" "second t < 10 ^ 2" "microsecond t < 10 ^ 6"
    by (simp_all add: valid_datetime_def)
  note lz = like_zfill [OF b(1)] like_zfill [OF b(2)] like_zfill [OF b(3)]
    like_zfill [OF b(4)] like_zfill [OF b(5)] like_zfill [OF b(6)]
    like_zfill_end [OF b(6)] like_zfill_end [OF b(7)]
  show ?thesis
  proof (cases "microsecond t = 0")
    case True
    have "like ''9999-99-99T99:99:99'' (isoformat t)"
      unfolding pattern_short isoformat_def using True by (simp add: lz)
    then show ?thesis by (simp add: iso8601_def)
  next
    case False
    have "like ''9999-99-99T99:99:99.999999'' (isoformat t)"
      unfolding pattern_long isoformat_def using False by (simp add: lz)
    then show ?thesis by (simp add: iso8601_def)
  qed
qed

subsection \<open>Routing and the response pipeline\<close>

lemma upper_methods:
  "upper ''GET'' = ''GET''"
  "upper ''HEAD'' = ''HEAD''"
  "upper ''OPTIONS'' = ''OPTIONS''"
  "upper ''POST'' = ''POST''"
  by code_simp+


lemma rule_methods_get: "rule_methods [''GET''] = [''GET'', ''HEAD'', ''OPTIONS'']"
  by (simp add: rule_methods_def Let_def upper_methods)

lemma match_rules_url_map:
  "match_rules url_map p m ws (hm, wm) =
     (if p \<in> route_paths
      then (if m \<notin> {''GET'', ''HEAD'', ''OPTIONS''} then (None, True, wm)
            else if ws then (None, hm, True)
            else (Some (if p = ''/health'' then Health else if p = ''/ready'' then Ready
                        else if p = ''/'' then Index else Data), hm, wm))
      else (None, hm, wm))"
  by (auto simp: url_map_def rule_methods_get route_paths_def)

lemma merge_slashes_route: "p \<in> route_paths \<Longrightarrow> merge_slashes p = p"
  by (auto simp: route_paths_def)

lemma route_not_static: "p \<in> route_paths \<Longrightarrow> \<not> under_static p"
  by (auto simp: route_paths_def under_static_def)

lemma path_part_route: "p \<in> route_paths \<Longrightarrow> path_part p = p"
  by (auto simp: route_paths_def path_part_def request_path_def)

lemma match_request_cases:
  "match_request req =
     (let p = path_part (req_path req); m = upper (req_method req) in
      if p \<in> route_paths
      then (if m \<notin> {''GET'', ''HEAD'', ''OPTIONS''} then Inl MethodNotAllowed
            else if is_websocket req then Inl WebsocketMismatch
            else Inr (if p = ''/health'' then Health else if p = ''/ready'' then Ready
                      else if p = ''/'' then Index else Data))
      else if merge_slashes p \<in> route_paths
      then (if m \<notin> {''GET'', ''HEAD'', ''OPTIONS''} then Inl MethodNotAllowed
            else if is_websocket req then Inl WebsocketMismatch
            else Inl (RequestRedirect (merge_slashes p)))
      else Inl NotFound)"
  by (simp add: match_request_def Let_def match_rules_url_map merge_slashes_route)

lemma finalize_json:
  "add_security_headers (with_status (jsonify j) code) =
     \<lparr>status = code,
      headers = [(''Content-Type'', ''application/json''),
                 (''X-Content-Type-Options'', ''nosniff''),
                 (''X-Frame-Options'', ''DENY''),
                 (''X-XSS-Protection'', ''1; mode=block''),
                 (''Strict-Transport-Security'', ''max-age=31536000; includeSubDomains'')],
      body = Json (sort_keys j)\<rparr>"
  by (simp add: add_security_headers_def with_status_def jsonify_def Let_def lower_names)

lemma finalize_default_error:
  "add_security_headers (default_error_response code) =
     \<lparr>status = code,
      headers = [(''Content-Type'', ''text/html; charset=utf-8''),
                 (''X-Content-Type-Options'', ''nosniff''),
                 (''X-Frame-Options'', ''DENY''),
                 (''X-XSS-Protection'', ''1; mode=block''),
                 (''Strict-Transport-Security'', ''max-age=31536000; includeSubDomains'')],
      body = DefaultErrorPage code\<rparr>"
  by (simp add: add_security_headers_def default_error_response_def Let_def lower_names)

lemma status_add_security_headers [simp]: "status (add_security_headers r) = status r"
  by (simp add: add_security_headers_def Let_def)

lemma body_add_security_headers [simp]: "body (add_security_headers r) = body r"
  by (simp add: add_security_headers_def Let_def)

text \<open>
  Dispatching a request to one of the four paths that is no websocket request, with a
  method of the rule other than OPTIONS.
\<close>

lemma dispatch_route:
  assumes "req_path req \<in> route_paths" and "upper (req_method req) \<in> {''GET'', ''HEAD''}"
    and "\<not> is_websocket req"
  shows "dispatch_request static_rule fault env now req =
     (case fault of
        Some d \<Rightarrow> Inl (Unhandled d)
      | None \<Rightarrow> Inr (view_function
          (if req_path req = ''/health'' then Health else if req_path req = ''/ready'' then Ready
           else if req_path req = ''/'' then Index else Data) req env now))"
proof -
  have p: "path_part (req_path req) = req_path req" using assms(1) by (rule path_part_route)
  have m: "upper (req_method req) \<noteq> ''OPTIONS''" using assms(2) by auto
  show ?thesis
    using assms m
    by (simp add: dispatch_request_def p route_not_static match_request_cases Let_def)
qed

lemma is_websocket_samples:
  "is_websocket \<lparr>req_method = ''GET'', req_path = ''/health'', req_query_string = [],
      req_data = [],
      req_environ = [(''HTTP_CONNECTION'', ''Upgrade''), (''HTTP_UPGRADE'', ''websocket'')]\<rparr>"
  "is_websocket \<lparr>req_method = ''GET'', req_path = ''/api/data'', req_query_string = [],
      req_data = [],
      req_environ = [(''HTTP_CONNECTION'', ''Upgrade''), (''HTTP_UPGRADE'', ''websocket'')]\<rparr>"
  "is_websocket \<lparr>req_method = ''GET'', req_path = ''/'', req_query_string = [],
      req_data = [],
      req_environ = [(''HTTP_CONNECTION'', ''keep-alive, Upgrade''),
        (''HTTP_UPGRADE'', ''WebSocket'')]\<rparr>"
  by code_simp+

lemma not_websocket_plain:
  "map_of (req_environ req) ''HTTP_UPGRADE'' = None \<Longrightarrow> \<not> is_websocket req"
  by (simp add: is_websocket_def environ_get_def lower_def)

subsection \<open>Parsing the port\<close>

lemma scan_digits_bad:
  "c \<in> set cs \<Longrightarrow> \<not> is_digit c \<Longrightarrow> c \<noteq> CHR ''_'' \<Longrightarrow> scan_digits acc prev cs = None"
  by (induction cs arbitrary: acc prev) auto

lemma in_dropWhile: "c \<in> set xs \<Longrightarrow> \<not> P c \<Longrightarrow> c \<in> set (dropWhile P xs)"
  by (induction xs) auto

lemma in_c_strip: "c \<in> set s \<Longrightarrow> \<not> c_isspace c \<Longrightarrow> c \<in> set (c_strip s)"
  by (simp add: c_strip_def in_dropWhile)

lemma py_int_rejects:
  assumes "c \<in> set s" "\<not> is_digit c" "\<not> c_isspace c" "c \<notin> {CHR ''_'', CHR ''+'', CHR ''-''}"
  shows "py_int s = None"
proof (cases "c_strip s")
  case Nil
  then show ?thesis by (simp add: py_int_def)
next
  case (Cons x xs)
  have c: "c \<in> set (x # xs)" using in_c_strip [OF assms(1) assms(3)] Cons by simp
  have whole: "scan_digits 0 False (x # xs) = None"
    using c assms by (intro scan_digits_bad [of c]) auto
  have rest: "x = CHR ''-'' \<or> x = CHR ''+'' \<Longrightarrow> scan_digits 0 False xs = None"
    using c assms by (intro scan_digits_bad [of c]) auto
  show ?thesis using whole rest by (auto simp add: py_int_def Cons simp del: scan_digits.simps)
qed

lemma py_int_empty: "py_int [] = None"
  by (simp add: py_int_def c_strip_def)

lemma py_int_samples: "py_int ''9090'' = Some 9090" "py_int ''abc'' = None"
  by code_simp+

lemma scan_group:
  "\<forall>c \<in> set g. is_digit c \<Longrightarrow> g \<noteq> [] \<Longrightarrow>
   \<exists>acc'. scan_digits acc prev (g @ rest) = scan_digits acc' True rest"
proof (induction g arbitrary: acc prev)
  case Nil
  then show ?case by simp
next
  case (Cons c g)
  show ?case
  proof (cases "g = []")
    case True
    with Cons.prems show ?thesis by auto
  next
    case False
    with Cons.prems Cons.IH [of "acc * 10 + digit_value c" True] show ?thesis by auto
  qed
qed

lemma scan_join:
  "gs \<noteq> [] \<Longrightarrow> \<forall>g \<in> set gs. digit_group g \<Longrightarrow> scan_digits acc prev (join_groups gs) \<noteq> None"
proof (induction gs arbitrary: acc prev rule: join_groups.induct)
  case 1
  then show ?case by simp
next
  case (2 g)
  then obtain acc' where "scan_digits acc prev (g @ []) = scan_digits acc' True []"
    using scan_group [of g acc prev "[]"] by (auto simp: digit_group_def)
  then show ?case by simp
next
  case (3 g h gs)
  then obtain acc' where a: "scan_digits acc prev (g @ CHR ''_'' # join_groups (h # gs))
      = scan_digits acc' True (CHR ''_'' # join_groups (h # gs))"
    using scan_group [of g acc prev "CHR ''_'' # join_groups (h # gs)"]
    by (auto simp: digit_group_def)
  have u: "\<not> is_digit (CHR ''_'')" by (simp add: is_digit_def)
  have "scan_digits acc' False (join_groups (h # gs)) \<noteq> None"
    using "3.IH" [of acc' False] "3.prems" by simp
  then show ?case using a u by simp
qed

lemma join_groups_concat:
  "join_groups (g # gs) = g @ concat (map (\<lambda>h. CHR ''_'' # h) gs)"
  by (induction gs arbitrary: g) auto

lemma scan_sound:
  "scan_digits acc prev cs = Some n \<Longrightarrow>
   \<exists>g gs. (\<forall>c \<in> set g. is_digit c) \<and> (\<forall>h \<in> set gs. digit_group h) \<and> (\<not> prev \<longrightarrow> g \<noteq> []) \<and>
          cs = g @ concat (map (\<lambda>h. CHR ''_'' # h) gs)"
proof (induction cs arbitrary: acc prev)
  case Nil
  then have prev by (simp split: if_splits)
  then show ?case by (intro exI [of _ "[]"]) simp
next
  case (Cons c cs)
  show ?case
  proof (cases "is_digit c")
    case True
    with Cons.prems have "scan_digits (acc * 10 + digit_value c) True cs = Some n" by simp
    from Cons.IH [OF this] obtain g gs where
      g: "\<forall>c \<in> set g. is_digit c" "\<forall>h \<in> set gs. digit_group h"
        "cs = g @ concat (map (\<lambda>h. CHR ''_'' # h) gs)" by blast
    show ?thesis
      by (rule exI [of _ "c # g"], rule exI [of _ gs]) (use g True in simp)
  next
    case False
    with Cons.prems have c: "c = CHR ''_''" "prev" and s: "scan_digits acc False cs = Some n"
      by (simp_all split: if_splits)
    from Cons.IH [OF s] obtain g gs where
      g: "\<forall>c \<in> set g. is_digit c" "\<forall>h \<in> set gs. digit_group h" "g \<noteq> []"
        "cs = g @ concat (map (\<lambda>h. CHR ''_'' # h) gs)" by blast
    show ?thesis
      by (rule exI [of _ "[]"], rule exI [of _ "g # gs"]) (use g c in \<open>simp add: digit_group_def\<close>)
  qed
qed

lemma scan_literal:
  "scan_digits acc False cs \<noteq> None \<longleftrightarrow> (\<exists>gs. gs \<noteq> [] \<and> (\<forall>g \<in> set gs. digit_group g) \<and> cs = join_groups gs)"
proof
  assume "scan_digits acc False cs \<noteq> None"
  then obtain n where "scan_digits acc False cs = Some n" by auto
  from scan_sound [OF this] obtain g gs where
    g: "\<forall>c \<in> set g. is_digit c" "\<forall>h \<in> set gs. digit_group h" "g \<noteq> []"
      "cs = g @ concat (map (\<lambda>h. CHR ''_'' # h) gs)" by blast
  show "\<exists>gs. gs \<noteq> [] \<and> (\<forall>g \<in> set gs. digit_group g) \<and> cs = join_groups gs"
    by (rule exI [of _ "g # gs"]) (use g in \<open>simp add: join_groups_concat digit_group_def\<close>)
next
  assume "\<exists>gs. gs \<noteq> [] \<and> (\<forall>g \<in> set gs. digit_group g) \<and> cs = join_groups gs"
  then show "scan_digits acc False cs \<noteq> None" using scan_join by blast
qed

lemma c_strip_split:
  "\<exists>l r. s = l @ c_strip s @ r \<and> (\<forall>c \<in> set l. c_isspace c) \<and> (\<forall>c \<in> set r. c_isspace c)"
proof -
  let ?u = "dropWhile c_isspace s"
  have 1: "s = takeWhile c_isspace s @ ?u" by simp
  have "?u = rev (rev ?u)" by simp
  also have "\<dots> = rev (takeWhile c_isspace (rev ?u) @ dropWhile c_isspace (rev ?u))"
    by (simp only: takeWhile_dropWhile_id)
  also have "\<dots> = c_strip s @ rev (takeWhile c_isspace (rev ?u))"
    by (simp only: rev_append c_strip_def)
  finally have 2: "?u = c_strip s @ rev (takeWhile c_isspace (rev ?u))" .
  have l: "\<forall>c \<in> set (takeWhile c_isspace s). c_isspace c" by (auto dest: set_takeWhileD)
  have r: "\<forall>c \<in> set (rev (takeWhile c_isspace (rev ?u))). c_isspace c"
    by (auto dest: set_takeWhileD)
  show ?thesis
    by (rule exI [of _ "takeWhile c_isspace s"],
        rule exI [of _ "rev (takeWhile c_isspace (rev ?u))"])
      (use 1 2 l r in auto)
qed

lemma c_strip_core:
  assumes "\<forall>c \<in> set l. c_isspace c" "\<forall>c \<in> set r. c_isspace c" "t \<noteq> []"
    "\<not> c_isspace (hd t)" "\<not> c_isspace (last t)"
  shows "c_strip (l @ t @ r) = t"
proof -
  have 1: "dropWhile c_isspace (l @ t @ r) = t @ r"
    using assms(1,3,4) by (cases t) (simp_all add: dropWhile_append2)
  obtain ys y where t: "t = ys @ [y]" using assms(3) by (cases t rule: rev_cases) auto
  have y: "\<not> c_isspace y" using assms(5) t by simp
  have "dropWhile c_isspace (rev r @ rev t) = dropWhile c_isspace (rev t)"
    by (rule dropWhile_append2) (use assms(2) in auto)
  also have "\<dots> = rev t" using y by (simp add: t)
  finally have 2: "dropWhile c_isspace (rev r @ rev t) = rev t" .
  show ?thesis by (simp add: c_strip_def 1 2)
qed

lemma join_groups_ends:
  "gs \<noteq> [] \<Longrightarrow> \<forall>g \<in> set gs. digit_group g \<Longrightarrow>
   join_groups gs \<noteq> [] \<and> is_digit (hd (join_groups gs)) \<and> is_digit (last (join_groups gs))"
proof (induction gs rule: join_groups.induct)
  case 1
  then show ?case by simp
next
  case (2 g)
  then have "g \<noteq> []" "\<forall>c \<in> set g. is_digit c" by (simp_all add: digit_group_def)
  then show ?case using hd_in_set [of g] last_in_set [of g] by simp
next
  case (3 g h gs)
  then have g: "g \<noteq> []" "\<forall>c \<in> set g. is_digit c" by (simp_all add: digit_group_def)
  have ih: "join_groups (h # gs) \<noteq> [] \<and> is_digit (last (join_groups (h # gs)))"
    using "3.IH" "3.prems" by simp
  show ?case using g ih hd_in_set [of g] by (simp add: hd_append)
qed

lemma digit_facts:
  "is_digit c \<Longrightarrow> \<not> c_isspace c" "is_digit c \<Longrightarrow> c \<noteq> CHR ''-''" "is_digit c \<Longrightarrow> c \<noteq> CHR ''+''"
  "\<not> c_isspace (CHR ''-'')" "\<not> c_isspace (CHR ''+'')"
  by (auto simp: is_digit_def c_isspace_def Let_def)

lemma py_int_literal: "py_int s \<noteq> None \<longleftrightarrow> decimal_literal s"
proof
  assume a: "py_int s \<noteq> None"
  obtain l r where s: "s = l @ c_strip s @ r" and l: "\<forall>c \<in> set l. c_isspace c"
    and r: "\<forall>c \<in> set r. c_isspace c" using c_strip_split by blast
  from a obtain c cs where t: "c_strip s = c # cs" by (cases "c_strip s") (auto simp: py_int_def)
  consider (minus) "c = CHR ''-''" | (plus) "c = CHR ''+''" | (none) "c \<noteq> CHR ''-''" "c \<noteq> CHR ''+''"
    by blast
  then obtain sign body where sb: "c # cs = sign @ body" "sign \<in> {[], ''+'', ''-''}"
    "scan_digits 0 False body \<noteq> None"
  proof cases
    case minus
    with a t have "scan_digits 0 False cs \<noteq> None" by (auto simp: py_int_def)
    then show ?thesis using that [of "''-''" cs] minus by simp
  next
    case plus
    with a t have "scan_digits 0 False cs \<noteq> None" by (auto simp: py_int_def)
    then show ?thesis using that [of "''+''" cs] plus by simp
  next
    case none
    with a t have "scan_digits 0 False (c # cs) \<noteq> None"
      by (auto simp: py_int_def simp del: scan_digits.simps)
    then show ?thesis using that [of "[]" "c # cs"] by simp
  qed
  from sb(3) obtain gs where gs: "gs \<noteq> []" "\<forall>g \<in> set gs. digit_group g" "body = join_groups gs"
    using scan_literal by blast
  have "s = l @ sign @ join_groups gs @ r" using s t sb(1) gs(3) by simp
  then show "decimal_literal s" using l r sb(2) gs(1,2) unfolding decimal_literal_def by blast
next
  assume "decimal_literal s"
  then obtain l sign gs r where d: "s = l @ sign @ join_groups gs @ r"
    "\<forall>c \<in> set l. c_isspace c" "\<forall>c \<in> set r. c_isspace c" "sign \<in> {[], ''+'', ''-''}"
    "gs \<noteq> []" "\<forall>g \<in> set gs. digit_group g"
    unfolding decimal_literal_def by blast
  let ?b = "join_groups gs"
  have e: "?b \<noteq> []" "is_digit (hd ?b)" "is_digit (last ?b)"
    using join_groups_ends [OF d(5) d(6)] by simp_all
  have sc: "scan_digits 0 False ?b \<noteq> None" using scan_join [OF d(5) d(6)] .
  obtain b bs where b: "?b = b # bs" using e(1) by (cases ?b) auto
  have bd: "is_digit b" using e(2) b by simp
  have t: "c_strip s = sign @ ?b"
  proof -
    have "c_strip (l @ (sign @ ?b) @ r) = sign @ ?b"
    proof (rule c_strip_core [OF d(2) d(3)])
      show "sign @ ?b \<noteq> []" using e(1) by simp
      show "\<not> c_isspace (hd (sign @ ?b))"
        using d(4) e digit_facts by (auto simp: hd_append)
      show "\<not> c_isspace (last (sign @ ?b))" using e digit_facts by simp
    qed
    then show ?thesis using d(1) by simp
  qed
  show "py_int s \<noteq> None"
    using d(4) sc bd digit_facts(2,3) [OF bd]
    by (auto simp: py_int_def t b simp del: scan_digits.simps)
qed

subsection \<open>Sample clock readings\<close>

lemma isoformat_samples:
  "isoformat \<lparr>year = 2024, month = 3, day = 9, hour = 7, minute = 5, second = 0,
      microsecond = 0\<rparr> = ''2024-03-09T07:05:00''"
  "isoformat \<lparr>year = 2024, month = 3, day = 9, hour = 7, minute = 5, second = 0,
      microsecond = 120\<rparr> = ''2024-03-09T07:05:00.000120''"
  by code_simp+

lemma iso8601_samples:
  "iso8601 ''2024-03-09T07:05:00''" "iso8601 ''2024-03-09T07:05:00.000120''"
  by (simp_all add: iso8601_def is_digit_def)

lemma valid_datetime_samples:
  "valid_datetime \<lparr>year = 2024, month = 3, day = 9, hour = 7, minute = 5, second = 0,
      microsecond = 0\<rparr>"
  "valid_datetime \<lparr>year = 2024, month = 3, day = 9, hour = 7, minute = 5, second = 0,
      microsecond = 120\<rparr>"
  by (simp_all add: valid_datetime_def)

lemmas pipeline_defs =
  wsgi_app_def full_dispatch_def finalize_request_def

section \<open>The claims\<close>

text \<open>
  C1. Every outgoing response carries the four security headers with their fixed values,
  whichever way it was produced: for any outcome of dispatching (the response of any view
  function, the 404 error, an unhandled fault answered with 500), hence for the response
  to any request, and for any response the hook is applied to, whatever headers it had
  before. Each of the four names holds exactly one value afterwards.
\<close>

theorem security_headers_on_every_response:
  "has_security_headers (headers (snd (full_dispatch req outcome))) \<and>
   has_security_headers (headers (snd (wsgi_app static_rule fault env now req))) \<and>
   has_security_headers (headers (add_security_headers r))"
  by (simp add: wsgi_app_def full_dispatch_def finalize_request_def add_security_headers_ok)

theorem security_headers_on_every_response_witness:
  "has_security_headers (headers (snd (full_dispatch
      \<lparr>req_method = ''GET'', req_path = ''/nonexistent'', req_query_string = [],
        req_data = [], req_environ = []\<rparr>
      (Inl (Unhandled ''boom''))))) \<and>
   has_security_headers (headers (snd (wsgi_app no_static_files None Map.empty
      \<lparr>year = 2024, month = 3, day = 9, hour = 7, minute = 5, second = 0,
        microsecond = 0\<rparr>
      \<lparr>req_method = ''GET'', req_path = ''/nonexistent'', req_query_string = [],
        req_data = [], req_environ = []\<rparr>))) \<and>
   has_security_headers (headers (add_security_headers
      \<lparr>status = 200,
       headers = [(''x-frame-options'', ''SAMEORIGIN''), (''X-Frame-Options'', ''ALLOWALL'')],
       body = NoBody\<rparr>))"
  using security_headers_on_every_response
    [where outcome = "Inl (Unhandled ''boom'')" and static_rule = no_static_files
      and fault = None and env = Map.empty
      and now = "\<lparr>year = 2024, month = 3, day = 9, hour = 7, minute = 5, second = 0,
        microsecond = 0\<rparr>"
      and req = "\<lparr>req_method = ''GET'', req_path = ''/nonexistent'', req_query_string = [],
        req_data = [], req_environ = []\<rparr>"
      and r = "\<lparr>status = 200,
        headers = [(''x-frame-options'', ''SAMEORIGIN''), (''X-Frame-Options'', ''ALLOWALL'')],
        body = NoBody\<rparr>"]
  by simp




text \<open>
  C3, as stated: every request GET /health is answered with status 200 and the health
  document. The framework's router refuses a request that asks for a websocket upgrade on
  a rule that is not a websocket rule, before any view runs: GET /health with
  \<open>Connection: Upgrade\<close> and \<open>Upgrade: websocket\<close> is answered with status 400 and the
  framework's error page. A fault that ends the view is answered with 500.
\<close>

theorem health_check_response_counterexample:
  "status (snd (wsgi_app no_static_files None Map.empty
      \<lparr>year = 2024, month = 3, day = 9, hour = 7, minute = 5, second = 0,
        microsecond = 0\<rparr>
      \<lparr>req_method = ''GET'', req_path = ''/health'', req_query_string = [],
        req_data = [], req_environ = [(''HTTP_CONNECTION'', ''Upgrade''), (''HTTP_UPGRADE'', ''websocket'')]\<rparr>)) = 400 \<and>
   body (snd (wsgi_app no_static_files None Map.empty
      \<lparr>year = 2024, month = 3, day = 9, hour = 7, minute = 5, second = 0,
        microsecond = 0\<rparr>
      \<lparr>req_method = ''GET'', req_path = ''/health'', req_query_string = [],
        req_data = [], req_environ = [(''HTTP_CONNECTION'', ''Upgrade''), (''HTTP_UPGRADE'', ''websocket'')]\<rparr>)) = DefaultErrorPage 400 \<and>
   status (snd (wsgi_app no_static_files (Some ''out of memory'') Map.empty
      \<lparr>year = 2024, month = 3, day = 9, hour = 7, minute = 5, second = 0,
        microsecond = 0\<rparr>
      \<lparr>req_method = ''GET'', req_path = ''/health'', req_query_string = [],
        req_data = [], req_environ = []\<rparr>)) = 500"
  by (simp add: pipeline_defs dispatch_request_def match_request_cases Let_def upper_methods
      finalize_default_error path_part_def request_path_def under_static_def route_paths_def
      is_websocket_samples not_websocket_plain internal_error_def with_status_def jsonify_def)

text \<open>
  C3, amended: a request GET /health that asks for no websocket upgrade, and whose view no
  fault ends, is answered with status 200 and a JSON object of exactly three fields:
  \<open>status\<close> is \<open>healthy\<close>, \<open>timestamp\<close> is the clock reading taken while the request is
  handled, written in the ISO-8601 form, and \<open>version\<close> is the value of APP_VERSION, or
  \<open>1.0.0\<close> when the variable is unset.
\<close>

theorem health_check_response:
  assumes "req_method req = ''GET''" and "req_path req = ''/health''"
    and "\<not> is_websocket req"
  shows "status (snd (wsgi_app static_rule None env now req)) = 200 \<and>
    body (snd (wsgi_app static_rule None env now req)) =
      Json (JObj
        [(''status'', JStr ''healthy''),
         (''timestamp'', JStr (isoformat now)),
         (''version'', JStr (case env ''APP_VERSION'' of
             None \<Rightarrow> ''1.0.0'' | Some v \<Rightarrow> v))]) \<and>
    (valid_datetime now \<longrightarrow> iso8601 (isoformat now))"
proof -
  have "dispatch_request static_rule None env now req = Inr (health_check req env now)"
    using assms by (simp add: dispatch_route route_paths_def upper_methods)
  then show ?thesis
    by (simp add: pipeline_defs health_check_def finalize_json getenv_def isoformat_iso8601)
qed

theorem health_check_response_witness:
  "\<not> is_websocket
      \<lparr>req_method = ''GET'', req_path = ''/health'', req_query_string = ''verbose=1'',
        req_data = ''ignored'', req_environ = [(''HTTP_ACCEPT'', ''text/plain'')]\<rparr> \<and>
   valid_datetime
      \<lparr>year = 2024, month = 3, day = 9, hour = 7, minute = 5, second = 0,
        microsecond = 0\<rparr> \<and>
   status (snd (wsgi_app no_static_files None Map.empty
      \<lparr>year = 2024, month = 3, day = 9, hour = 7, minute = 5, second = 0,
        microsecond = 0\<rparr>
      \<lparr>req_method = ''GET'', req_path = ''/health'', req_query_string = ''verbose=1'',
        req_data = ''ignored'', req_environ = [(''HTTP_ACCEPT'', ''text/plain'')]\<rparr>)) = 200 \<and>
   body (snd (wsgi_app no_static_files None Map.empty
      \<lparr>year = 2024, month = 3, day = 9, hour = 7, minute = 5, second = 0,
        microsecond = 0\<rparr>
      \<lparr>req_method = ''GET'', req_path = ''/health'', req_query_string = ''verbose=1'',
        req_data = ''ignored'', req_environ = [(''HTTP_ACCEPT'', ''text/plain'')]\<rparr>)) =
      Json (JObj
        [(''status'', JStr ''healthy''),
         (''timestamp'', JStr ''2024-03-09T07:05:00''),
         (''version'', JStr ''1.0.0'')]) \<and>
   iso8601 ''2024-03-09T07:05:00''"
  using health_check_response [where static_rule = no_static_files and env = Map.empty
      and now = "\<lparr>year = 2024, month = 3, day = 9, hour = 7, minute = 5, second = 0,
        microsecond = 0\<rparr>"
      and req = "\<lparr>req_method = ''GET'', req_path = ''/health'', req_query_string = ''verbose=1'',
        req_data = ''ignored'', req_environ = [(''HTTP_ACCEPT'', ''text/plain'')]\<rparr>"]
  by (simp add: valid_datetime_samples isoformat_samples not_websocket_plain)

text \<open>
  C4, as stated: every request GET /api/data is answered with status 200 and the data
  listing, and writes the log record. A request GET /api/data that asks for a websocket
  upgrade is refused by the router with status 400; the view does not run and nothing is
  logged. A fault that ends the view is answered with 500.
\<close>

theorem get_data_response_counterexample:
  "status (snd (wsgi_app no_static_files None Map.empty
      \<lparr>year = 2024, month = 3, day = 9, hour = 7, minute = 5, second = 0,
        microsecond = 0\<rparr>
      \<lparr>req_method = ''GET'', req_path = ''/api/data'', req_query_string = [],
        req_data = [], req_environ = [(''HTTP_CONNECTION'', ''Upgrade''), (''HTTP_UPGRADE'', ''websocket'')]\<rparr>)) = 400 \<and>
   fst (wsgi_app no_static_files None Map.empty
      \<lparr>year = 2024, month = 3, day = 9, hour = 7, minute = 5, second = 0,
        microsecond = 0\<rparr>
      \<lparr>req_method = ''GET'', req_path = ''/api/data'', req_query_string = [],
        req_data = [], req_environ = [(''HTTP_CONNECTION'', ''Upgrade''), (''HTTP_UPGRADE'', ''websocket'')]\<rparr>) = [] \<and>
   status (snd (wsgi_app no_static_files (Some ''out of memory'') Map.empty
      \<lparr>year = 2024, month = 3, day = 9, hour = 7, minute = 5, second = 0,
        microsecond = 0\<rparr>
      \<lparr>req_method = ''GET'', req_path = ''/api/data'', req_query_string = [],
        req_data = [], req_environ = []\<rparr>)) = 500"
  by (simp add: pipeline_defs dispatch_request_def match_request_cases Let_def upper_methods
      finalize_default_error path_part_def request_path_def under_static_def route_paths_def
      is_websocket_samples not_websocket_plain internal_error_def with_status_def jsonify_def)

text \<open>
  C4, amended: a request GET /api/data that asks for no websocket upgrade, and whose view
  no fault ends, is answered with status 200 and a JSON object whose \<open>data\<close> field is the
  list of the three fixed items, ids 1, 2, 3 with names \<open>Item 1\<close>, \<open>Item 2\<close>, \<open>Item 3\<close>,
  in this order, and whose \<open>timestamp\<close> is the clock reading in the ISO-8601 form.
  Handling the request writes exactly one log record, \<open>Data endpoint accessed\<close> at level
  INFO; the log is a component of the result apart from the response, which the record
  does not enter.
\<close>

theorem get_data_response:
  assumes "req_method req = ''GET''" and "req_path req = ''/api/data''"
    and "\<not> is_websocket req"
  shows "fst (wsgi_app static_rule None env now req) =
      [(INFO, ''Data endpoint accessed'', None)] \<and>
    status (snd (wsgi_app static_rule None env now req)) = 200 \<and>
    body (snd (wsgi_app static_rule None env now req)) =
      Json (JObj
        [(''data'', JArr
           [JObj [(''id'', JInt 1), (''name'', JStr ''Item 1'')],
            JObj [(''id'', JInt 2), (''name'', JStr ''Item 2'')],
            JObj [(''id'', JInt 3), (''name'', JStr ''Item 3'')]]),
         (''timestamp'', JStr (isoformat now))]) \<and>
    (valid_datetime now \<longrightarrow> iso8601 (isoformat now))"
proof -
  have "dispatch_request static_rule None env now req = Inr (get_data req env now)"
    using assms by (simp add: dispatch_route route_paths_def upper_methods)
  then show ?thesis
    by (simp add: pipeline_defs get_data_def finalize_json isoformat_iso8601)
qed

theorem get_data_response_witness:
  "\<not> is_websocket
      \<lparr>req_method = ''GET'', req_path = ''/api/data'', req_query_string = ''page=2'',
        req_data = [], req_environ = []\<rparr> \<and>
   valid_datetime
      \<lparr>year = 2024, month = 3, day = 9, hour = 7, minute = 5, second = 0,
        microsecond = 120\<rparr> \<and>
   fst (wsgi_app no_static_files None Map.empty
      \<lparr>year = 2024, month = 3, day = 9, hour = 7, minute = 5, second = 0,
        microsecond = 120\<rparr>
      \<lparr>req_method = ''GET'', req_path = ''/api/data'', req_query_string = ''page=2'',
        req_data = [], req_environ = []\<rparr>) = [(INFO, ''Data endpoint accessed'', None)] \<and>
   status (snd (wsgi_app no_static_files None Map.empty
      \<lparr>year = 2024, month = 3, day = 9, hour = 7, minute = 5, second = 0,
        microsecond = 120\<rparr>
      \<lparr>req_method = ''GET'', req_path = ''/api/data'', req_query_string = ''page=2'',
        req_data = [], req_environ = []\<rparr>)) = 200 \<and>
   body (snd (wsgi_app no_static_files None Map.empty
      \<lparr>year = 2024, month = 3, day = 9, hour = 7, minute = 5, second = 0,
        microsecond = 120\<rparr>
      \<lparr>req_method = ''GET'', req_path = ''/api/data'', req_query_string = ''page=2'',
        req_data = [], req_environ = []\<rparr>)) =
      Json (JObj
        [(''data'', JArr
           [JObj [(''id'', JInt 1), (''name'', JStr ''Item 1'')],
            JObj [(''id'', JInt 2), (''name'', JStr ''Item 2'')],
            JObj [(''id'', JInt 3), (''name'', JStr ''Item 3'')]]),
         (''timestamp'', JStr ''2024-03-09T07:05:00.000120'')]) \<and>
   iso8601 ''2024-03-09T07:05:00.000120''"
  using get_data_response [where static_rule = no_static_files and env = Map.empty
      and now = "\<lparr>year = 2024, month = 3, day = 9, hour = 7, minute = 5, second = 0,
        microsecond = 120\<rparr>"
      and req = "\<lparr>req_method = ''GET'', req_path = ''/api/data'', req_query_string = ''page=2'',
        req_data = [], req_environ = []\<rparr>"]
  by (simp add: valid_datetime_samples isoformat_samples not_websocket_plain)



text \<open>
  C6, as stated: every request GET / is answered with status 200 and the index document.
  A request GET / that asks for a websocket upgrade is refused by the router with status
  400 and the framework's error page. A fault that ends the view is answered with 500.
\<close>

theorem index_response_counterexample:
  "status (snd (wsgi_app no_static_files None Map.empty
      \<lparr>year = 2024, month = 3, day = 9, hour = 7, minute = 5, second = 0,
        microsecond = 0\<rparr>
      \<lparr>req_method = ''GET'', req_path = ''/'', req_query_string = [],
        req_data = [], req_environ = [(''HTTP_CONNECTION'', ''keep-alive, Upgrade''),
        (''HTTP_UPGRADE'', ''WebSocket'')]\<rparr>)) = 400 \<and>
   body (snd (wsgi_app no_static_files None Map.empty
      \<lparr>year = 2024, month = 3, day = 9, hour = 7, minute = 5, second = 0,
        microsecond = 0\<rparr>
      \<lparr>req_method = ''GET'', req_path = ''/'', req_query_string = [],
        req_data = [], req_environ = [(''HTTP_CONNECTION'', ''keep-alive, Upgrade''),
        (''HTTP_UPGRADE'', ''WebSocket'')]\<rparr>)) = DefaultErrorPage 400 \<and>
   status (snd (wsgi_app no_static_files (Some ''out of memory'') Map.empty
      \<lparr>year = 2024, month = 3, day = 9, hour = 7, minute = 5, second = 0,
        microsecond = 0\<rparr>
      \<lparr>req_method = ''GET'', req_path = ''/'', req_query_string = [],
        req_data = [], req_environ = []\<rparr>)) = 500"
  by (simp add: pipeline_defs dispatch_request_def match_request_cases Let_def upper_methods
      finalize_default_error path_part_def request_path_def under_static_def route_paths_def
      is_websocket_samples not_websocket_plain internal_error_def with_status_def jsonify_def)

text \<open>
  C6, amended: a request GET / that asks for no websocket upgrade, and whose view no fault
  ends, is answered with status 200 and a JSON object of exactly three fields, serialised
  in the order of their names: \<open>environment\<close> is the value of ENVIRONMENT, or
  \<open>development\<close> when it is unset, \<open>message\<close> is a fixed string, and \<open>version\<close> is the
  value of APP_VERSION, or \<open>1.0.0\<close> when it is unset.
\<close>

theorem index_response:
  assumes "req_method req = ''GET''" and "req_path req = ''/''"
    and "\<not> is_websocket req"
  shows "status (snd (wsgi_app static_rule None env now req)) = 200 \<and>
    body (snd (wsgi_app static_rule None env now req)) =
      Json (JObj
        [(''environment'', JStr (case env ''ENVIRONMENT'' of
             None \<Rightarrow> ''development'' | Some v \<Rightarrow> v)),
         (''message'', JStr ''Secure CI/CD Pipeline Demo''),
         (''version'', JStr (case env ''APP_VERSION'' of
             None \<Rightarrow> ''1.0.0'' | Some v \<Rightarrow> v))])"
proof -
  have "dispatch_request static_rule None env now req = Inr (index req env now)"
    using assms by (simp add: dispatch_route route_paths_def upper_methods)
  then show ?thesis
    by (simp add: pipeline_defs index_def finalize_json getenv_def)
qed

theorem index_response_witness:
  "\<not> is_websocket
      \<lparr>req_method = ''GET'', req_path = ''/'', req_query_string = [],
        req_data = [], req_environ = []\<rparr> \<and>
   status (snd (wsgi_app no_static_files None [''ENVIRONMENT'' \<mapsto> ''production'']
      \<lparr>year = 2024, month = 3, day = 9, hour = 7, minute = 5, second = 0,
        microsecond = 0\<rparr>
      \<lparr>req_method = ''GET'', req_path = ''/'', req_query_string = [],
        req_data = [], req_environ = []\<rparr>)) = 200 \<and>
   body (snd (wsgi_app no_static_files None [''ENVIRONMENT'' \<mapsto> ''production'']
      \<lparr>year = 2024, month = 3, day = 9, hour = 7, minute = 5, second = 0,
        microsecond = 0\<rparr>
      \<lparr>req_method = ''GET'', req_path = ''/'', req_query_string = [],
        req_data = [], req_environ = []\<rparr>)) =
      Json (JObj
        [(''environment'', JStr ''production''),
         (''message'', JStr ''Secure CI/CD Pipeline Demo''),
         (''version'', JStr ''1.0.0'')])"
  using index_response [where static_rule = no_static_files
      and env = "[''ENVIRONMENT'' \<mapsto> ''production'']"
      and now = "\<lparr>year = 2024, month = 3, day = 9, hour = 7, minute = 5, second = 0,
        microsecond = 0\<rparr>"
      and req = "\<lparr>req_method = ''GET'', req_path = ''/'', req_query_string = [],
        req_data = [], req_environ = []\<rparr>"]
  by (simp add: not_websocket_plain)

text \<open>
  C7, as stated: with APP_VERSION set to \<open>v\<close>, every GET /health and every GET / report
  the version \<open>v\<close>. With APP_VERSION set to \<open>2.3.1\<close>, a request GET /health that asks for
  a websocket upgrade is answered with the error page of status 400, which has no
  \<open>version\<close> field, while GET / reports \<open>2.3.1\<close>.
\<close>

theorem version_reported_consistently_counterexample:
  "json_field (snd (wsgi_app no_static_files None [''APP_VERSION'' \<mapsto> ''2.3.1'']
      \<lparr>year = 2024, month = 3, day = 9, hour = 7, minute = 5, second = 0,
        microsecond = 0\<rparr>
      \<lparr>req_method = ''GET'', req_path = ''/health'', req_query_string = [],
        req_data = [], req_environ = [(''HTTP_CONNECTION'', ''Upgrade''), (''HTTP_UPGRADE'', ''websocket'')]\<rparr>)) ''version'' = None \<and>
   json_field (snd (wsgi_app no_static_files None [''APP_VERSION'' \<mapsto> ''2.3.1'']
      \<lparr>year = 2024, month = 3, day = 9, hour = 7, minute = 5, second = 0,
        microsecond = 0\<rparr>
      \<lparr>req_method = ''GET'', req_path = ''/'', req_query_string = [],
        req_data = [], req_environ = []\<rparr>)) ''version'' = Some (JStr ''2.3.1'')"
  by (simp add: pipeline_defs dispatch_request_def match_request_cases Let_def upper_methods
      finalize_default_error path_part_def request_path_def under_static_def route_paths_def
      is_websocket_samples not_websocket_plain index_def finalize_json getenv_def
      json_field_def)

text \<open>
  C7, amended: in one environment, a request GET /health and a request GET / that ask for
  no websocket upgrade, and whose views no fault ends, report the same \<open>version\<close>,
  whenever each of them is asked; and when APP_VERSION is set to \<open>v\<close>, both report \<open>v\<close>.
\<close>

theorem version_reported_consistently:
  assumes "req_method r1 = ''GET''" and "req_path r1 = ''/health''"
    and "req_method r2 = ''GET''" and "req_path r2 = ''/''"
    and "\<not> is_websocket r1" and "\<not> is_websocket r2"
  shows "json_field (snd (wsgi_app static_rule None env now1 r1)) ''version'' =
         json_field (snd (wsgi_app static_rule None env now2 r2)) ''version'' \<and>
         (env ''APP_VERSION'' = Some v \<longrightarrow>
            json_field (snd (wsgi_app static_rule None env now1 r1)) ''version'' =
              Some (JStr v) \<and>
            json_field (snd (wsgi_app static_rule None env now2 r2)) ''version'' =
              Some (JStr v))"
proof -
  have 1: "dispatch_request static_rule None env now1 r1 = Inr (health_check r1 env now1)"
    using assms by (simp add: dispatch_route route_paths_def upper_methods)
  have 2: "dispatch_request static_rule None env now2 r2 = Inr (index r2 env now2)"
    using assms by (simp add: dispatch_route route_paths_def upper_methods)
  show ?thesis
    by (simp add: pipeline_defs 1 2 index_def health_check_def finalize_json getenv_def
        json_field_def)
qed

theorem version_reported_consistently_witness:
  "\<not> is_websocket
      \<lparr>req_method = ''GET'', req_path = ''/health'', req_query_string = [],
        req_data = [], req_environ = []\<rparr> \<and>
   \<not> is_websocket
      \<lparr>req_method = ''GET'', req_path = ''/'', req_query_string = [],
        req_data = [], req_environ = []\<rparr> \<and>
   [''APP_VERSION'' \<mapsto> ''2.3.1''] ''APP_VERSION'' = Some ''2.3.1'' \<and>
   json_field (snd (wsgi_app no_static_files None [''APP_VERSION'' \<mapsto> ''2.3.1'']
      \<lparr>year = 2024, month = 3, day = 9, hour = 7, minute = 5, second = 0,
        microsecond = 0\<rparr>
      \<lparr>req_method = ''GET'', req_path = ''/health'', req_query_string = [],
        req_data = [], req_environ = []\<rparr>)) ''version'' = Some (JStr ''2.3.1'') \<and>
   json_field (snd (wsgi_app no_static_files None [''APP_VERSION'' \<mapsto> ''2.3.1'']
      \<lparr>year = 2024, month = 3, day = 9, hour = 7, minute = 5, second = 0,
        microsecond = 120\<rparr>
      \<lparr>req_method = ''GET'', req_path = ''/'', req_query_string = [],
        req_data = [], req_environ = []\<rparr>)) ''version'' = Some (JStr ''2.3.1'')"
  using version_reported_consistently [where static_rule = no_static_files
      and env = "[''APP_VERSION'' \<mapsto> ''2.3.1'']" and v = "''2.3.1''"
      and ?now1.0 = "\<lparr>year = 2024, month = 3, day = 9, hour = 7, minute = 5, second = 0,
        microsecond = 0\<rparr>"
      and ?now2.0 = "\<lparr>year = 2024, month = 3, day = 9, hour = 7, minute = 5, second = 0,
        microsecond = 120\<rparr>"
      and ?r1.0 = "\<lparr>req_method = ''GET'', req_path = ''/health'', req_query_string = [],
        req_data = [], req_environ = []\<rparr>"
      and ?r2.0 = "\<lparr>req_method = ''GET'', req_path = ''/'', req_query_string = [],
        req_data = [], req_environ = []\<rparr>"]
  by (simp add: not_websocket_plain)

text \<open>
  C8, as stated: two requests to the same defined route, handled at the same clock
  reading in the same environment, get the same response whatever else they contain. Of
  two requests GET /health that differ in their headers only, the one that asks for a
  websocket upgrade is answered with status 400 and the other with status 200.
\<close>

theorem response_independent_of_request_content_counterexample:
  "req_method
      \<lparr>req_method = ''GET'', req_path = ''/health'', req_query_string = [],
        req_data = [], req_environ = []\<rparr> =
   req_method
      \<lparr>req_method = ''GET'', req_path = ''/health'', req_query_string = [],
        req_data = [], req_environ = [(''HTTP_CONNECTION'', ''Upgrade''), (''HTTP_UPGRADE'', ''websocket'')]\<rparr> \<and>
   req_path
      \<lparr>req_method = ''GET'', req_path = ''/health'', req_query_string = [],
        req_data = [], req_environ = []\<rparr> =
   req_path
      \<lparr>req_method = ''GET'', req_path = ''/health'', req_query_string = [],
        req_data = [], req_environ = [(''HTTP_CONNECTION'', ''Upgrade''), (''HTTP_UPGRADE'', ''websocket'')]\<rparr> \<and>
   status (snd (wsgi_app no_static_files None Map.empty
      \<lparr>year = 2024, month = 3, day = 9, hour = 7, minute = 5, second = 0,
        microsecond = 0\<rparr>
      \<lparr>req_method = ''GET'', req_path = ''/health'', req_query_string = [],
        req_data = [], req_environ = []\<rparr>)) = 200 \<and>
   status (snd (wsgi_app no_static_files None Map.empty
      \<lparr>year = 2024, month = 3, day = 9, hour = 7, minute = 5, second = 0,
        microsecond = 0\<rparr>
      \<lparr>req_method = ''GET'', req_path = ''/health'', req_query_string = [],
        req_data = [], req_environ = [(''HTTP_CONNECTION'', ''Upgrade''), (''HTTP_UPGRADE'', ''websocket'')]\<rparr>)) = 400"
  by (simp add: pipeline_defs dispatch_request_def match_request_cases Let_def upper_methods
      finalize_default_error path_part_def request_path_def under_static_def route_paths_def
      is_websocket_samples not_websocket_plain health_check_def with_status_def jsonify_def)

text \<open>
  C8, amended: the answer to a request for one of the four defined paths is a function of
  its method and path, of whether it asks for a websocket upgrade, of the clock reading,
  the environment and the fault that ends the view, if any, and of nothing else: two such
  requests with the same method and path that agree on the websocket upgrade, handled at
  the same clock reading in the same environment, get the same log records and the same
  response (status, headers and body), whatever their query strings, bodies and other
  headers. No view function reads the request.
\<close>

theorem response_independent_of_request_content:
  assumes "req_method r1 = req_method r2" and "req_path r1 = req_path r2"
    and "req_path r1 \<in> route_paths" and "is_websocket r1 = is_websocket r2"
  shows "wsgi_app static_rule fault env now r1 = wsgi_app static_rule fault env now r2"
proof -
  have p: "path_part (req_path r1) = req_path r1" "path_part (req_path r2) = req_path r2"
    using assms by (simp_all add: path_part_route)
  have v: "view_function ep r1 env now = view_function ep r2 env now" for ep
    by (cases ep) (simp_all add: health_check_def readiness_check_def index_def get_data_def)
  have m: "match_request r1 = match_request r2"
    using assms by (simp add: match_request_cases Let_def p)
  have d: "dispatch_request static_rule fault env now r1 =
           dispatch_request static_rule fault env now r2"
    using assms m v
    by (simp add: dispatch_request_def p route_not_static split: sum.splits option.splits)
  have h: "handle_exception r1 e = handle_exception r2 e" for e
    using assms by (cases e) (simp_all add: log_exception_def)
  show ?thesis
    using d h by (simp add: pipeline_defs split: sum.splits)
qed

theorem response_independent_of_request_content_witness:
  "''/api/data'' \<in> route_paths \<and>
   is_websocket
      \<lparr>req_method = ''GET'', req_path = ''/api/data'', req_query_string = [],
        req_data = [], req_environ = []\<rparr> =
   is_websocket
      \<lparr>req_method = ''GET'', req_path = ''/api/data'', req_query_string = ''id=7&debug=true'',
        req_data = ''id=7'', req_environ = [(''HTTP_ACCEPT'', ''text/html''), (''HTTP_X_FORWARDED_FOR'', ''10.0.0.7'')]\<rparr> \<and>
   wsgi_app no_static_files None [''APP_VERSION'' \<mapsto> ''2.3.1'']
      \<lparr>year = 2024, month = 3, day = 9, hour = 7, minute = 5, second = 0,
        microsecond = 120\<rparr>
      \<lparr>req_method = ''GET'', req_path = ''/api/data'', req_query_string = [],
        req_data = [], req_environ = []\<rparr> =
   wsgi_app no_static_files None [''APP_VERSION'' \<mapsto> ''2.3.1'']
      \<lparr>year = 2024, month = 3, day = 9, hour = 7, minute = 5, second = 0,
        microsecond = 120\<rparr>
      \<lparr>req_method = ''GET'', req_path = ''/api/data'', req_query_string = ''id=7&debug=true'',
        req_data = ''id=7'', req_environ = [(''HTTP_ACCEPT'', ''text/html''), (''HTTP_X_FORWARDED_FOR'', ''10.0.0.7'')]\<rparr>"
  using response_independent_of_request_content [where static_rule = no_static_files
      and fault = None and env = "[''APP_VERSION'' \<mapsto> ''2.3.1'']"
      and now = "\<lparr>year = 2024, month = 3, day = 9, hour = 7, minute = 5, second = 0,
        microsecond = 120\<rparr>"
      and ?r1.0 = "\<lparr>req_method = ''GET'', req_path = ''/api/data'', req_query_string = [],
        req_data = [], req_environ = []\<rparr>"
      and ?r2.0 = "\<lparr>req_method = ''GET'', req_path = ''/api/data'', req_query_string = ''id=7&debug=true'',
        req_data = ''id=7'', req_environ = [(''HTTP_ACCEPT'', ''text/html''), (''HTTP_X_FORWARDED_FOR'', ''10.0.0.7'')]\<rparr>"]
  by (simp add: route_paths_def not_websocket_plain)



text \<open>
  C10. The default 8080 is used only when PORT is unset. When PORT is set to a string of
  ASCII characters that is not a decimal integer as \<open>int\<close> reads one (white space, an
  optional sign, groups of digits with single underscores between them, white space), the
  conversion raises ValueError and no server is started: the entry returns the error,
  not a configuration, and so not one with port 8080. This is so in particular for the
  empty string and for every string with a character that is neither a digit, white
  space, an underscore nor a sign.
\<close>

theorem invalid_port_stops_startup:
  assumes "env ''PORT'' = Some s" and "ascii s"
  shows "(\<not> decimal_literal s \<longrightarrow>
            main env = Inl (ValueError s) \<and> (\<forall>cfg. main env \<noteq> Inr cfg)) \<and>
         (s = [] \<or> (\<exists>c \<in> set s. \<not> is_digit c \<and> \<not> c_isspace c \<and>
              c \<notin> {CHR ''_'', CHR ''+'', CHR ''-''}) \<longrightarrow> \<not> decimal_literal s)"
proof (intro conjI impI)
  assume "\<not> decimal_literal s"
  then have "py_int s = None" using py_int_literal [of s] by simp
  then show "main env = Inl (ValueError s)" and "\<forall>cfg. main env \<noteq> Inr cfg"
    using assms(1) by (simp_all add: main_def read_port_def)
next
  assume "s = [] \<or> (\<exists>c \<in> set s. \<not> is_digit c \<and> \<not> c_isspace c \<and>
              c \<notin> {CHR ''_'', CHR ''+'', CHR ''-''})"
  then have "py_int s = None" using py_int_rejects py_int_empty by blast
  then show "\<not> decimal_literal s" using py_int_literal [of s] by simp
qed

theorem invalid_port_stops_startup_witness:
  "[''PORT'' \<mapsto> ''abc''] ''PORT'' = Some ''abc'' \<and> ascii ''abc'' \<and>
   \<not> decimal_literal ''abc'' \<and>
   main [''PORT'' \<mapsto> ''abc''] = Inl (ValueError ''abc'') \<and>
   [''PORT'' \<mapsto> []] ''PORT'' = Some [] \<and> ascii [] \<and> \<not> decimal_literal [] \<and>
   main [''PORT'' \<mapsto> []] = Inl (ValueError [])"
proof -
  have a: "ascii ''abc''" "ascii []" by (simp_all add: ascii_def)
  have d: "\<not> decimal_literal ''abc''" "\<not> decimal_literal []"
    using py_int_literal [of "''abc''"] py_int_literal [of "[]"] py_int_samples py_int_empty
    by simp_all
  show ?thesis
    using invalid_port_stops_startup [of "[''PORT'' \<mapsto> ''abc'']" "''abc''"]
      invalid_port_stops_startup [of "[''PORT'' \<mapsto> []]" "[]"] a d
    by simp
qed

end
